theory Spec2Isabelle
  imports Complex_Main
begin

section \<open>The mock StarCraft II environment (pysc2/env/mock\_sc2\_env.py)\<close>

subsection \<open>Values shared by both classes\<close>

text \<open>
  \<open>environment.StepType\<close> and \<open>environment.TimeStep\<close>. The reward and the discount
  are Python floats; the code only copies them or overwrites them with the literals
  \<open>0.\<close> and \<open>1.\<close>, so exact reals stand for them. The observation is whatever the
  environment's \<open>_default_observation\<close> built.
\<close>

datatype StepType = FIRST | MID | LAST

record 'o TimeStep =
  step_type :: StepType
  reward :: real
  discount :: real
  observation :: 'o

text \<open>
  The attribute \<open>episode_length\<close> holds either \<open>float('inf')\<close> (the value set by
  \<open>_TestEnvironment.__init__\<close>) or an integer.
\<close>

datatype EpisodeLength = Finite int | Infinite

text \<open>\<open>self._episode_steps >= self.episode_length\<close>\<close>

fun ge_episode_length :: "int \<Rightarrow> EpisodeLength \<Rightarrow> bool" where
  "ge_episode_length n (Finite l) = (l \<le> n)"
| "ge_episode_length n Infinite = False"

datatype error =
    ValueError string
  | KeyError string
  | IndexError
  | AttributeError string

text \<open>Python's \<open>'%d' % n\<close> for an integer: its decimal digits, with a sign when negative.\<close>

definition digit_char :: "nat \<Rightarrow> char" where
  "digit_char d = ''0123456789'' ! d"

function format_nat :: "nat \<Rightarrow> string" where
  "format_nat n =
     (if n < 10 then [digit_char n] else format_nat (n div 10) @ [digit_char (n mod 10)])"
  by pat_completeness auto
termination
  by (relation "measure (\<lambda>n. n)") auto

declare format_nat.simps [simp del]

definition format_d :: "int \<Rightarrow> string" where
  "format_d i = (if i < 0 then CHR ''-'' # format_nat (nat (- i)) else format_nat (nat i))"

subsection \<open>\<open>_TestEnvironment\<close>\<close>

text \<open>
  The object's attributes. \<open>_observation_spec\<close> and \<open>_action_spec\<close> are the tuples
  \<open>(spec,) * num_agents\<close>; \<open>next_timestep\<close> and \<open>episode_length\<close> are public and may be
  reassigned by the caller between calls.
\<close>

record ('o, 'os, 'as) TestEnvironment =
  num_agents :: int
  observation_spec_attr :: "'os list"
  action_spec_attr :: "'as list"
  episode_steps :: int
  next_timestep :: "'o TimeStep"
  episode_length :: EpisodeLength

text \<open>
  \<open>__init__\<close>. The call \<open>self._default_observation()\<close> is dispatched on the class of
  \<open>self\<close>, so the observation builder is an argument; it receives the object as far as
  it is initialised at that point (the two spec tuples) and may raise.
\<close>

definition TestEnvironment_init ::
  "('os list \<Rightarrow> error + 'o) \<Rightarrow> int \<Rightarrow> 'os \<Rightarrow> 'as \<Rightarrow> error + ('o, 'os, 'as) TestEnvironment" where
  "TestEnvironment_init default_observation n ospec aspec =
     (let ospecs = replicate (nat n) ospec;
          aspecs = replicate (nat n) aspec
      in case default_observation ospecs of
           Inl e \<Rightarrow> Inl e
         | Inr obs \<Rightarrow>
             Inr \<lparr> num_agents = n,
                   observation_spec_attr = ospecs,
                   action_spec_attr = aspecs,
                   episode_steps = 0,
                   next_timestep =
                     \<lparr> step_type = MID, reward = 0, discount = 1, observation = obs \<rparr>,
                   episode_length = Infinite \<rparr>)"

text \<open>
  \<open>step\<close>. The result pairs what the call returns or raises with the object afterwards,
  so that what a raising call leaves behind is part of the model. The actions themselves
  are never inspected, only counted.
\<close>

definition step ::
  "('o, 'os, 'as) TestEnvironment \<Rightarrow> 'act option list \<Rightarrow>
     (error + 'o TimeStep list) \<times> ('o, 'os, 'as) TestEnvironment" where
  "step self actions =
     (if int (length actions) \<noteq> num_agents self then
        (Inl (ValueError (''Expected '' @ format_d (num_agents self) @ '' actions, received ''
                @ format_d (int (length actions)) @ ''.'')), self)
      else
        let timestep =
              (if episode_steps self = 0 then
                 (next_timestep self)\<lparr> step_type := FIRST, reward := 0, discount := 1 \<rparr>
               else if ge_episode_length (episode_steps self) (episode_length self) then
                 (next_timestep self)\<lparr> step_type := LAST \<rparr>
               else next_timestep self);
            self' =
              (if step_type timestep = LAST then self\<lparr> episode_steps := 0 \<rparr>
               else self\<lparr> episode_steps := episode_steps self + 1 \<rparr>)
        in (Inr (replicate (nat (num_agents self)) timestep), self'))"

text \<open>\<open>reset\<close>: \<open>[None] * self._num_agents\<close> is the empty list for a count below 1.\<close>

definition reset ::
  "('o, 'os, 'as) TestEnvironment \<Rightarrow>
     (error + 'o TimeStep list) \<times> ('o, 'os, 'as) TestEnvironment" where
  "reset self =
     step (self\<lparr> episode_steps := 0 \<rparr>) (replicate (nat (num_agents self)) (None :: unit option))"

definition action_spec :: "('o, 'os, 'as) TestEnvironment \<Rightarrow> 'as list" where
  "action_spec self = action_spec_attr self"

definition observation_spec :: "('o, 'os, 'as) TestEnvironment \<Rightarrow> 'os list" where
  "observation_spec self = observation_spec_attr self"

subsection \<open>Collaborators of \<open>SC2TestEnv\<close>\<close>

text \<open>
  Participants of the roster are instances of \<open>sc2_env.Agent\<close> or \<open>sc2_env.Bot\<close>; the
  constructor only asks \<open>isinstance(p, sc2_env.Agent)\<close>. The argument \<open>players\<close> is
  \<open>None\<close> when no roster is passed.
\<close>

datatype participant = Agent | Bot

fun is_Agent :: "participant \<Rightarrow> bool" where
  "is_Agent Agent = True"
| "is_Agent Bot = False"

text \<open>Values a caller may put in a positional slot, with Python's truth test.\<close>

datatype pyval = PyNone | PyBool bool | PyInt int | PyStr string

fun truthy :: "pyval \<Rightarrow> bool" where
  "truthy PyNone = False"
| "truthy (PyBool b) = b"
| "truthy (PyInt i) = (i \<noteq> 0)"
| "truthy (PyStr s) = (s \<noteq> [])"

text \<open>
  The first parameter of \<open>SC2TestEnv.__init__\<close> after \<open>self\<close> is \<open>_only_use_kwargs\<close>
  with default \<open>None\<close>, so the first positional argument of a call is bound to it.
\<close>

definition bind_only_use_kwargs :: "pyval list \<Rightarrow> pyval" where
  "bind_only_use_kwargs args = (case args of [] \<Rightarrow> PyNone | a # _ \<Rightarrow> a)"

text \<open>
  A numpy array: its shape and its cells in row-major order. The cell \<open>a[i, j]\<close> of an
  array of shape \<open>(H, W)\<close> is cell \<open>i * W + j\<close>.
\<close>

record ndarray =
  shape :: "nat list"
  cells :: "int list"

definition zeros :: "nat list \<Rightarrow> ndarray" where
  "zeros shp = \<lparr> shape = shp, cells = replicate (prod_list shp) 0 \<rparr>"

definition at2 :: "ndarray \<Rightarrow> nat \<Rightarrow> nat \<Rightarrow> int" where
  "at2 a i j = cells a ! (i * (shape a ! 1) + j)"

text \<open>\<open>a.fill(v)\<close>\<close>

definition ndarray_fill :: "int \<Rightarrow> ndarray \<Rightarrow> ndarray" where
  "ndarray_fill v a = a\<lparr> cells := map (\<lambda>_. v) (cells a) \<rparr>"

text \<open>
  \<open>view.fill(v)\<close> for a view of the array \<open>a\<close>: the view is given by the positions of
  the cells of \<open>a\<close> that it shares, and those cells change. A slice that was copied
  shares none.
\<close>

definition view_fill :: "nat list \<Rightarrow> int \<Rightarrow> ndarray \<Rightarrow> ndarray" where
  "view_fill view v a =
     a\<lparr> cells := map (\<lambda>k. if k \<in> set view then v else cells a ! k)
                       [0 ..< length (cells a)] \<rparr>"

text \<open>
  Modelled from the spec: the slice \<open>minimap_camera[:height, :width]\<close>, which is
  evaluated by \<open>__getitem__\<close> of the array class in \<open>pysc2.lib.named_array\<close>; that class
  is not in this file. The specification says that the step fills "the top-left quadrant
  (height//2 rows x width//2 columns)" of the field: the slice of a two-dimensional array
  is the view of its cells in rows below \<open>h\<close> and columns below \<open>w\<close>, as it is for a
  plain numpy array, with bounds beyond the shape clipped.
\<close>

definition slice_top_left :: "ndarray \<Rightarrow> nat \<Rightarrow> nat \<Rightarrow> nat list" where
  "slice_top_left a h w =
     (case shape a of
        [H, W] \<Rightarrow> filter (\<lambda>k. k div W < h \<and> k mod W < w) [0 ..< length (cells a)]
      | _ \<Rightarrow> [])"

text \<open>
  The protobuf messages that \<open>_default_observation\<close> writes. An \<open>ImageData\<close> that was
  never written reads as the protobuf defaults: zero numbers and empty bytes.
\<close>

record ImageData =
  bits_per_pixel :: nat
  size_y :: nat
  size_x :: nat
  data :: string

definition ImageData_default :: ImageData where
  "ImageData_default = \<lparr> bits_per_pixel = 0, size_y = 0, size_x = 0, data = [] \<rparr>"

record PlayerCommon =
  player_id :: int
  minerals :: int
  vespene :: int
  food_cap :: int
  food_used :: int
  food_army :: int
  food_workers :: int
  idle_worker_count :: int
  army_count :: int
  warp_gate_count :: int
  larva_count :: int

record ScoreDetails =
  idle_production_time :: int
  idle_worker_time :: int
  total_value_units :: int
  total_value_structures :: int
  killed_value_units :: int
  killed_value_structures :: int
  collected_minerals :: int
  collected_vespene :: int
  collection_rate_minerals :: int
  collection_rate_vespene :: int
  spent_minerals :: int
  spent_vespene :: int

text \<open>
  \<open>response_observation.observation\<close>: \<open>renders\<close> and \<open>minimap_renders\<close> are the
  messages under \<open>feature_layer_data\<close>, read by field name with \<open>getattr\<close>;
  \<open>render_map\<close> and \<open>render_minimap\<close> are \<open>render_data.map\<close> and
  \<open>render_data.minimap\<close>. An ability is the pair of its id and \<open>requires_point\<close>.
\<close>

record ResponseObservation =
  game_loop :: int
  player_common :: PlayerCommon
  abilities :: "(int \<times> bool) list"
  score :: int
  score_details :: ScoreDetails
  renders :: "string \<Rightarrow> ImageData"
  minimap_renders :: "string \<Rightarrow> ImageData"
  render_map :: ImageData
  render_minimap :: ImageData

text \<open>
  The structured observation returned by \<open>transform_obs\<close>: a mapping from field name to
  a named array, which is read by layer name (\<open>observation.feature_minimap.camera\<close>).
\<close>

type_synonym named_array = "string \<rightharpoonup> ndarray"
type_synonym sc2_observation = "string \<rightharpoonup> named_array"

text \<open>
  What the constructor uses of \<open>pysc2.lib\<close>, which is outside this file. From
  \<open>features\<close>: the object \<open>features.Features(...)\<close> with its observation spec (field
  name to shape tuple), its action spec and \<open>transform_obs\<close>, and the module's tables
  \<open>SCREEN_FEATURES\<close> and \<open>MINIMAP_FEATURES\<close>, of which only the feature names are read.
  From \<open>named_array\<close>: the \<open>__getitem__\<close> of the arrays that \<open>transform_obs\<close> returns,
  applied to a pair of slices; \<open>named_array_getitem a h w\<close> is the view \<open>a[:h, :w]\<close>,
  as the positions of the cells that it shares with \<open>a\<close>.
\<close>

record 'as Features =
  features_observation_spec :: "string \<rightharpoonup> nat list"
  features_action_spec :: 'as
  transform_obs :: "ResponseObservation \<Rightarrow> sc2_observation"
  SCREEN_FEATURES :: "string list"
  MINIMAP_FEATURES :: "string list"
  named_array_getitem :: "ndarray \<Rightarrow> nat \<Rightarrow> nat \<Rightarrow> nat list"

subsection \<open>\<open>SC2TestEnv\<close>\<close>

text \<open>
  The local function \<open>fill\<close>, with \<open>sz\<close> for its parameter \<open>size\<close>. The module
  imports true division, so
  \<open>size[0] * size[1] * bits / 8\<close> is a quotient of reals; \<open>size[0]\<close> and \<open>size[1]\<close>
  raise on a tuple that is too short.
\<close>

definition fill :: "ImageData \<Rightarrow> nat list \<Rightarrow> nat \<Rightarrow> error + ImageData" where
  "fill image_data sz bits =
     (case sz of
        s0 # s1 # _ \<Rightarrow>
          Inr (image_data\<lparr> bits_per_pixel := bits, size_y := s0, size_x := s1,
                 data := replicate (nat \<lceil>real (s0 * s1 * bits) / 8\<rceil>) (CHR 0x00) \<rparr>)
      | _ \<Rightarrow> Inl IndexError)"

text \<open>The loops \<open>for feature in features.SCREEN_FEATURES: fill(getattr(...), size, 8)\<close>.\<close>

fun fill_layers ::
  "(string \<Rightarrow> ImageData) \<Rightarrow> string list \<Rightarrow> nat list \<Rightarrow> error + (string \<Rightarrow> ImageData)" where
  "fill_layers rs [] sz = Inr rs"
| "fill_layers rs (name # names) sz =
     (case fill (rs name) sz 8 of
        Inl e \<Rightarrow> Inl e
      | Inr img \<Rightarrow> fill_layers (rs(name := img)) names sz)"

text \<open>The record as it is before any buffer is filled (lines 262 to 293).\<close>

definition mock_scalars :: ResponseObservation where
  "mock_scalars =
     \<lparr> game_loop = 1,
       player_common =
         \<lparr> player_id = 1, minerals = 20, vespene = 50, food_cap = 36, food_used = 21,
           food_army = 6, food_workers = 15, idle_worker_count = 2, army_count = 6,
           warp_gate_count = 0, larva_count = 0 \<rparr>,
       abilities = [(1, True)],
       score = 300,
       score_details =
         \<lparr> idle_production_time = 0, idle_worker_time = 0, total_value_units = 190,
           total_value_structures = 230, killed_value_units = 0,
           killed_value_structures = 0, collected_minerals = 2130, collected_vespene = 560,
           collection_rate_minerals = 50, collection_rate_vespene = 20,
           spent_minerals = 2000, spent_vespene = 500 \<rparr>,
       renders = (\<lambda>_. ImageData_default),
       minimap_renders = (\<lambda>_. ImageData_default),
       render_map = ImageData_default,
       render_minimap = ImageData_default \<rparr>"

text \<open>
  The four \<open>if ... in obs_spec\<close> statements (lines 302 to 313), in the source's order.
  The fourth tests \<open>'rgb_screen'\<close> and then reads \<open>obs_spec['rgb_minimap']\<close>, which
  raises \<open>KeyError\<close> when that key is missing.
\<close>

definition fill_feature_screen ::
  "'as Features \<Rightarrow> (string \<rightharpoonup> nat list) \<Rightarrow> ResponseObservation \<Rightarrow> error + ResponseObservation" where
  "fill_feature_screen feats obs_spec obs =
     (case obs_spec ''feature_screen'' of
        None \<Rightarrow> Inr obs
      | Some shp \<Rightarrow>
          (case fill_layers (renders obs) (SCREEN_FEATURES feats) (tl shp) of
             Inl e \<Rightarrow> Inl e
           | Inr rs \<Rightarrow> Inr (obs\<lparr> renders := rs \<rparr>)))"

definition fill_feature_minimap ::
  "'as Features \<Rightarrow> (string \<rightharpoonup> nat list) \<Rightarrow> ResponseObservation \<Rightarrow> error + ResponseObservation" where
  "fill_feature_minimap feats obs_spec obs =
     (case obs_spec ''feature_minimap'' of
        None \<Rightarrow> Inr obs
      | Some shp \<Rightarrow>
          (case fill_layers (minimap_renders obs) (MINIMAP_FEATURES feats) (tl shp) of
             Inl e \<Rightarrow> Inl e
           | Inr rs \<Rightarrow> Inr (obs\<lparr> minimap_renders := rs \<rparr>)))"

definition fill_rgb_screen ::
  "(string \<rightharpoonup> nat list) \<Rightarrow> ResponseObservation \<Rightarrow> error + ResponseObservation" where
  "fill_rgb_screen obs_spec obs =
     (case obs_spec ''rgb_screen'' of
        None \<Rightarrow> Inr obs
      | Some shp \<Rightarrow>
          (case fill (render_map obs) (take 2 shp) 24 of
             Inl e \<Rightarrow> Inl e
           | Inr img \<Rightarrow> Inr (obs\<lparr> render_map := img \<rparr>)))"

definition fill_rgb_minimap ::
  "(string \<rightharpoonup> nat list) \<Rightarrow> ResponseObservation \<Rightarrow> error + ResponseObservation" where
  "fill_rgb_minimap obs_spec obs =
     (case obs_spec ''rgb_screen'' of
        None \<Rightarrow> Inr obs
      | Some _ \<Rightarrow>
          (case obs_spec ''rgb_minimap'' of
             None \<Rightarrow> Inl (KeyError ''rgb_minimap'')
           | Some shp \<Rightarrow>
               (case fill (render_minimap obs) (take 2 shp) 24 of
                  Inl e \<Rightarrow> Inl e
                | Inr img \<Rightarrow> Inr (obs\<lparr> render_minimap := img \<rparr>))))"

text \<open>The record handed to \<open>transform_obs\<close> (lines 262 to 313).\<close>

definition mock_response_observation ::
  "'as Features \<Rightarrow> (string \<rightharpoonup> nat list) \<Rightarrow> error + ResponseObservation" where
  "mock_response_observation feats obs_spec =
     (case fill_feature_screen feats obs_spec mock_scalars of
        Inl e \<Rightarrow> Inl e
      | Inr obs1 \<Rightarrow>
          (case fill_feature_minimap feats obs_spec obs1 of
             Inl e \<Rightarrow> Inl e
           | Inr obs2 \<Rightarrow>
               (case fill_rgb_screen obs_spec obs2 of
                  Inl e \<Rightarrow> Inl e
                | Inr obs3 \<Rightarrow> fill_rgb_minimap obs_spec obs3)))"

text \<open>
  The bounding box of the minimap camera (lines 318 to 322). Unpacking
  \<open>height, width = [...]\<close> raises \<open>ValueError\<close> unless the array has two dimensions.
  \<open>getitem\<close> is the \<open>__getitem__\<close> of the camera's class.
\<close>

definition mark_camera ::
  "(ndarray \<Rightarrow> nat \<Rightarrow> nat \<Rightarrow> nat list) \<Rightarrow> ndarray \<Rightarrow> error + ndarray" where
  "mark_camera getitem minimap_camera =
     (let filled = ndarray_fill 0 minimap_camera;
          dims = map (\<lambda>dim. dim div 2) (shape filled)
      in case dims of
           [height, width] \<Rightarrow> Inr (view_fill (getitem filled height width) 1 filled)
         | _ \<Rightarrow>
             Inl (ValueError
               (if length dims < 2 then
                  ''not enough values to unpack (expected 2, got ''
                    @ format_d (int (length dims)) @ '')''
                else ''too many values to unpack (expected 2)'')))"

definition mark_minimap_camera ::
  "(ndarray \<Rightarrow> nat \<Rightarrow> nat \<Rightarrow> nat list) \<Rightarrow> sc2_observation \<Rightarrow> error + sc2_observation" where
  "mark_minimap_camera getitem obsv =
     (case obsv ''feature_minimap'' of
        None \<Rightarrow> Inr obsv
      | Some feature_minimap \<Rightarrow>
          (case feature_minimap ''camera'' of
             None \<Rightarrow> Inl (AttributeError ''camera'')
           | Some minimap_camera \<Rightarrow>
               (case mark_camera getitem minimap_camera of
                  Inl e \<Rightarrow> Inl e
                | Inr marked \<Rightarrow>
                    Inr (obsv(''feature_minimap'' \<mapsto>
                           feature_minimap(''camera'' \<mapsto> marked))))))"

text \<open>
  \<open>SC2TestEnv._default_observation\<close>. \<open>self.observation_spec()[0]\<close> raises
  \<open>IndexError\<close> on the empty tuple, which is what \<open>(spec,) * 0\<close> is.
\<close>

definition SC2TestEnv_default_observation ::
  "'as Features \<Rightarrow> (string \<rightharpoonup> nat list) list \<Rightarrow> error + sc2_observation" where
  "SC2TestEnv_default_observation feats specs =
     (case specs of
        [] \<Rightarrow> Inl IndexError
      | obs_spec # _ \<Rightarrow>
          (case mock_response_observation feats obs_spec of
             Inl e \<Rightarrow> Inl e
           | Inr response_observation \<Rightarrow>
               mark_minimap_camera (named_array_getitem feats)
                 (transform_obs feats response_observation)))"

text \<open>
  \<open>SC2TestEnv.__init__\<close>. \<open>args\<close> are the positional arguments of the call, of which
  the body sees the first as \<open>_only_use_kwargs\<close>; \<open>players\<close> is the roster or
  \<open>None\<close>; \<open>made\<close> is what \<open>features.Features(...)\<close> returns or raises for the
  remaining options. The options the body deletes unread are left out.
\<close>

definition count_agents :: "participant list option \<Rightarrow> int" where
  "count_agents players =
     (case players of
        None \<Rightarrow> 1
      | Some [] \<Rightarrow> 1
      | Some ps \<Rightarrow> int (length (filter is_Agent ps)))"

definition SC2TestEnv_init ::
  "pyval list \<Rightarrow> participant list option \<Rightarrow> error + 'as Features \<Rightarrow>
     error + (sc2_observation, string \<rightharpoonup> nat list, 'as) TestEnvironment" where
  "SC2TestEnv_init args players made =
     (if truthy (bind_only_use_kwargs args) then
        Inl (ValueError ''All arguments must be passed as keyword arguments.'')
      else
        case made of
          Inl e \<Rightarrow> Inl e
        | Inr feats \<Rightarrow>
            (case TestEnvironment_init (SC2TestEnv_default_observation feats)
                    (count_agents players)
                    (features_observation_spec feats) (features_action_spec feats) of
               Inl e \<Rightarrow> Inl e
             | Inr self \<Rightarrow> Inr (self\<lparr> episode_length := Finite 10 \<rparr>)))"

text \<open>\<open>save_replay\<close> does nothing and returns \<open>None\<close>.\<close>

definition save_replay ::
  "('o, 'os, 'as) TestEnvironment \<Rightarrow> pyval list \<Rightarrow> unit \<times> ('o, 'os, 'as) TestEnvironment" where
  "save_replay self args = ((), self)"

text \<open>\<open>_TestEnvironment._default_observation\<close>: a zero array for every key of the spec.\<close>

definition TestEnvironment_default_observation ::
  "(string \<rightharpoonup> nat list) list \<Rightarrow> error + (string \<rightharpoonup> ndarray)" where
  "TestEnvironment_default_observation specs =
     (case specs of
        [] \<Rightarrow> Inl IndexError
      | spec # _ \<Rightarrow> Inr (\<lambda>key. map_option zeros (spec key)))"

subsection \<open>Call sequences and sample objects\<close>

text \<open>
  What a caller does to an environment between construction and the end of a run: it
  calls \<open>reset\<close>, calls \<open>step\<close>, or assigns the public attribute \<open>next_timestep\<close>.
  \<open>perform\<close> gives the object after one such event, whatever the call returned.
\<close>

datatype ('o, 'act) call =
    CallReset
  | CallStep "'act option list"
  | SetNextTimestep "'o TimeStep"

fun perform ::
  "('o, 'os, 'as) TestEnvironment \<Rightarrow> ('o, 'act) call \<Rightarrow> ('o, 'os, 'as) TestEnvironment" where
  "perform self CallReset = snd (reset self)"
| "perform self (CallStep actions) = snd (step self actions)"
| "perform self (SetNextTimestep ts) = self\<lparr> next_timestep := ts \<rparr>"

text \<open>
  \<open>[None] * self._num_agents\<close>, the actions that \<open>reset\<close> passes, and the object after
  \<open>k\<close> calls of \<open>step\<close> with them.
\<close>

definition neutral_actions :: "('o, 'os, 'as) TestEnvironment \<Rightarrow> unit option list" where
  "neutral_actions self = replicate (nat (num_agents self)) None"

primrec after_steps ::
  "nat \<Rightarrow> ('o, 'os, 'as) TestEnvironment \<Rightarrow> ('o, 'os, 'as) TestEnvironment" where
  "after_steps 0 self = self"
| "after_steps (Suc k) self = after_steps k (snd (step self (neutral_actions self)))"

text \<open>
  Sample objects: an environment for \<open>n\<close> agents with the counter at \<open>c\<close>, whose
  template has the given step type, reward 5, discount 1/2 and observation 7; and an
  observation builder that returns 7.
\<close>

definition example_env ::
  "int \<Rightarrow> int \<Rightarrow> StepType \<Rightarrow> EpisodeLength \<Rightarrow> (nat, unit, unit) TestEnvironment" where
  "example_env n c st l =
     \<lparr> num_agents = n, observation_spec_attr = replicate (nat n) (),
       action_spec_attr = replicate (nat n) (), episode_steps = c,
       next_timestep = \<lparr> step_type = st, reward = 5, discount = 1 / 2, observation = 7 \<rparr>,
       episode_length = l \<rparr>"

definition example_builder :: "unit list \<Rightarrow> error + nat" where
  "example_builder specs = Inr 7"

text \<open>
  A sample \<open>features\<close> object. It declares a feature screen of 8 by 8 and a feature
  minimap of 4 rows by 6 columns, each with one layer, and its \<open>transform_obs\<close> returns
  a minimap whose camera layer has the size of the filled buffer and holds 7 everywhere;
  its arrays are sliced as \<open>slice_top_left\<close> says.
  \<open>example_camera\<close> is that layer after the bounding box is drawn, and
  \<open>example_fixture n\<close> is the \<open>SC2TestEnv\<close> built from these features for \<open>n\<close> agents.
\<close>

definition example_transform :: "ResponseObservation \<Rightarrow> sc2_observation" where
  "example_transform raw =
     [''feature_minimap'' \<mapsto>
        [''camera'' \<mapsto>
           \<lparr> shape = [size_y (minimap_renders raw ''camera''),
                        size_x (minimap_renders raw ''camera'')],
             cells = replicate (size_y (minimap_renders raw ''camera'') *
                                size_x (minimap_renders raw ''camera'')) 7 \<rparr>]]"

definition example_features :: "unit Features" where
  "example_features =
     \<lparr> features_observation_spec =
         [''feature_screen'' \<mapsto> [1, 8, 8], ''feature_minimap'' \<mapsto> [1, 4, 6]],
       features_action_spec = (),
       transform_obs = example_transform,
       SCREEN_FEATURES = [''height_map''],
       MINIMAP_FEATURES = [''camera''],
       named_array_getitem = slice_top_left \<rparr>"

definition example_camera :: ndarray where
  "example_camera =
     \<lparr> shape = [4, 6],
       cells = [1, 1, 1, 0, 0, 0,
                1, 1, 1, 0, 0, 0,
                0, 0, 0, 0, 0, 0,
                0, 0, 0, 0, 0, 0] \<rparr>"

definition example_fixture ::
  "int \<Rightarrow> (sc2_observation, string \<rightharpoonup> nat list, unit) TestEnvironment" where
  "example_fixture n =
     \<lparr> num_agents = n,
       observation_spec_attr = replicate (nat n) (features_observation_spec example_features),
       action_spec_attr = replicate (nat n) (),
       episode_steps = 0,
       next_timestep =
         \<lparr> step_type = MID, reward = 0, discount = 1,
           observation = [''feature_minimap'' \<mapsto> [''camera'' \<mapsto> example_camera]] \<rparr>,
       episode_length = Finite 10 \<rparr>"

section \<open>Properties of \<open>_TestEnvironment\<close>\<close>

subsection \<open>The two outcomes of \<open>step\<close>\<close>

lemma step_wrong_arity:
  "int (length actions) \<noteq> num_agents self \<Longrightarrow>
   step self actions =
     (Inl (ValueError (''Expected '' @ format_d (num_agents self) @ '' actions, received ''
            @ format_d (int (length actions)) @ ''.'')), self)"
  by (simp add: step_def)

lemma fst_step_right_arity:
  "int (length actions) = num_agents self \<Longrightarrow>
   fst (step self actions) =
     Inr (replicate (nat (num_agents self))
       (if episode_steps self = 0 then
          (next_timestep self)\<lparr> step_type := FIRST, reward := 0, discount := 1 \<rparr>
        else if ge_episode_length (episode_steps self) (episode_length self) then
          (next_timestep self)\<lparr> step_type := LAST \<rparr>
        else next_timestep self))"
  by (simp add: step_def Let_def)

lemma snd_step_right_arity:
  "int (length actions) = num_agents self \<Longrightarrow>
   snd (step self actions) =
     self\<lparr> episode_steps :=
       (if episode_steps self = 0 then 1
        else if ge_episode_length (episode_steps self) (episode_length self) then 0
        else if step_type (next_timestep self) = LAST then 0
        else episode_steps self + 1) \<rparr>"
  by (simp add: step_def Let_def)

lemma step_ignores_actions:
  "length actions = length actions' \<Longrightarrow> step self actions = step self actions'"
  by (simp add: step_def)

lemma reset_unfold:
  "reset self =
     step (self\<lparr> episode_steps := 0 \<rparr>) (replicate (nat (num_agents self)) (None :: 'act option))"
  unfolding reset_def by (rule step_ignores_actions) simp

lemma step_raises_iff:
  "isl (fst (step self actions)) \<longleftrightarrow> int (length actions) \<noteq> num_agents self"
  by (simp add: step_def Let_def)

subsection \<open>Step types\<close>

text \<open>
  C1, as the code has it. Every timestep that a successful \<open>step\<close> returns carries the
  template's observation. With the counter at 0 it has step type \<open>FIRST\<close>, reward 0 and
  discount 1. With the counter not 0 it has the template's reward and discount; it has step
  type \<open>LAST\<close> when the counter has reached the episode length, and otherwise it is the
  template itself, step type included. So for a template of step type \<open>MID\<close>, which is
  what the constructor sets, the step type is \<open>LAST\<close> exactly when the counter has
  reached the episode length and \<open>MID\<close> exactly when it has not.
\<close>

theorem step_type_contract:
  assumes "fst (step self actions) = Inr tss" and "ts \<in> set tss"
  shows "observation ts = observation (next_timestep self) \<and>
    (episode_steps self = 0 \<longrightarrow> step_type ts = FIRST \<and> reward ts = 0 \<and> discount ts = 1) \<and>
    (episode_steps self \<noteq> 0 \<longrightarrow>
       reward ts = reward (next_timestep self) \<and>
       discount ts = discount (next_timestep self) \<and>
       (ge_episode_length (episode_steps self) (episode_length self) \<longrightarrow>
          step_type ts = LAST) \<and>
       (\<not> ge_episode_length (episode_steps self) (episode_length self) \<longrightarrow>
          ts = next_timestep self) \<and>
       (step_type (next_timestep self) = MID \<longrightarrow>
          (step_type ts = LAST \<longleftrightarrow>
             ge_episode_length (episode_steps self) (episode_length self)) \<and>
          (step_type ts = MID \<longleftrightarrow>
             \<not> ge_episode_length (episode_steps self) (episode_length self))))"
proof -
  from assms(1) have ar: "int (length actions) = num_agents self"
    using step_raises_iff [of self actions] by auto
  from assms fst_step_right_arity [OF ar]
  have "ts =
      (if episode_steps self = 0 then
         (next_timestep self)\<lparr> step_type := FIRST, reward := 0, discount := 1 \<rparr>
       else if ge_episode_length (episode_steps self) (episode_length self) then
         (next_timestep self)\<lparr> step_type := LAST \<rparr>
       else next_timestep self)"
    by auto
  then show ?thesis
    by (auto split: if_splits)
qed

text \<open>
  The theorem at three objects for one agent with episode length 3: counter 0 (with a
  \<open>LAST\<close> template), counter 3 and counter 2.
\<close>

theorem step_type_contract_witness:
  "fst (step (example_env 1 0 LAST (Finite 3)) [None :: unit option]) =
     Inr [\<lparr> step_type = FIRST, reward = 0, discount = 1, observation = 7 \<rparr>] \<and>
   episode_steps (example_env 1 0 LAST (Finite 3)) = 0 \<and>
   step_type \<lparr> step_type = FIRST, reward = 0, discount = 1, observation = 7::nat \<rparr> = FIRST \<and>
   fst (step (example_env 1 3 MID (Finite 3)) [None :: unit option]) =
     Inr [\<lparr> step_type = LAST, reward = 5, discount = 1 / 2, observation = 7 \<rparr>] \<and>
   ge_episode_length (episode_steps (example_env 1 3 MID (Finite 3)))
     (episode_length (example_env 1 3 MID (Finite 3))) \<and>
   fst (step (example_env 1 2 MID (Finite 3)) [None :: unit option]) =
     Inr [\<lparr> step_type = MID, reward = 5, discount = 1 / 2, observation = 7 \<rparr>] \<and>
   \<lparr> step_type = MID, reward = 5, discount = 1 / 2, observation = 7 \<rparr> =
     next_timestep (example_env 1 2 MID (Finite 3))"
proof -
  let ?f = "\<lparr> step_type = FIRST, reward = 0, discount = 1, observation = 7::nat \<rparr>"
  let ?l = "\<lparr> step_type = LAST, reward = 5, discount = 1 / 2, observation = 7::nat \<rparr>"
  let ?m = "\<lparr> step_type = MID, reward = 5, discount = 1 / 2, observation = 7::nat \<rparr>"
  have a: "fst (step (example_env 1 0 LAST (Finite 3)) [None :: unit option]) = Inr [?f]"
    by (simp add: step_def Let_def example_env_def)
  have b: "fst (step (example_env 1 3 MID (Finite 3)) [None :: unit option]) = Inr [?l]"
    by (simp add: step_def Let_def example_env_def)
  have c: "fst (step (example_env 1 2 MID (Finite 3)) [None :: unit option]) = Inr [?m]"
    by (simp add: step_def Let_def example_env_def)
  have z: "episode_steps (example_env 1 0 LAST (Finite 3)) = 0"
    and g: "ge_episode_length (episode_steps (example_env 1 3 MID (Finite 3)))
              (episode_length (example_env 1 3 MID (Finite 3)))"
    and n: "episode_steps (example_env 1 2 MID (Finite 3)) \<noteq> 0"
      "\<not> ge_episode_length (episode_steps (example_env 1 2 MID (Finite 3)))
              (episode_length (example_env 1 2 MID (Finite 3)))"
    by (simp_all add: example_env_def)
  from step_type_contract [OF a, of ?f] z have "step_type ?f = FIRST"
    by simp
  moreover from step_type_contract [OF c, of ?m] n
  have "?m = next_timestep (example_env 1 2 MID (Finite 3))"
    by simp
  ultimately show ?thesis
    using a b c z g by blast
qed

text \<open>
  C1 as the specification words it says that below the episode length the step type is
  \<open>MID\<close> for every configured environment. With a template of step type \<open>LAST\<close>, the
  counter at 1 and episode length 3, the call returns \<open>LAST\<close>.
\<close>

theorem step_type_contract_counterexample:
  "episode_steps (example_env 1 1 LAST (Finite 3)) \<noteq> 0 \<and>
   \<not> ge_episode_length (episode_steps (example_env 1 1 LAST (Finite 3)))
       (episode_length (example_env 1 1 LAST (Finite 3))) \<and>
   fst (step (example_env 1 1 LAST (Finite 3)) [None :: unit option]) =
     Inr [\<lparr> step_type = LAST, reward = 5, discount = 1 / 2, observation = 7 \<rparr>]"
  by (simp add: step_def Let_def example_env_def)

subsection \<open>One timestep per agent\<close>

text \<open>
  C3. For an agent count of at least 1, the list returned by a successful \<open>step\<close> or
  \<open>reset\<close> has exactly that many entries, and every entry equals the first.
\<close>

theorem timesteps_per_agent:
  assumes "1 \<le> num_agents self"
  shows "(fst (step self actions) = Inr tss \<longrightarrow>
            int (length tss) = num_agents self \<and> (\<forall>ts \<in> set tss. ts = hd tss)) \<and>
         (fst (reset self) = Inr tss' \<longrightarrow>
            int (length tss') = num_agents self \<and> (\<forall>ts \<in> set tss'. ts = hd tss'))"
proof -
  have one: "fst (step s acts) = Inr xs \<Longrightarrow> 1 \<le> num_agents s \<Longrightarrow>
      int (length xs) = num_agents s \<and> (\<forall>ts \<in> set xs. ts = hd xs)"
    for s :: "('a, 'b, 'c) TestEnvironment" and acts :: "'e option list" and xs
  proof -
    assume r: "fst (step s acts) = Inr xs" and n: "1 \<le> num_agents s"
    from r have ar: "int (length acts) = num_agents s"
      using step_raises_iff [of s acts] by auto
    from n obtain m where m: "nat (num_agents s) = Suc m"
      by (cases "nat (num_agents s)") auto
    from r fst_step_right_arity [OF ar] obtain t where "xs = replicate (nat (num_agents s)) t"
      by auto
    with m n show ?thesis by auto
  qed
  show ?thesis
    using one [where s = self and acts = actions and xs = tss]
      one [where s = "self\<lparr> episode_steps := 0 \<rparr>" and xs = tss'] assms
    by (auto simp: reset_def)
qed

text \<open>The theorem for two agents.\<close>

theorem timesteps_per_agent_witness:
  "1 \<le> num_agents (example_env 2 3 MID (Finite 10)) \<and>
   fst (step (example_env 2 3 MID (Finite 10)) [None :: unit option, None]) =
     Inr [\<lparr> step_type = MID, reward = 5, discount = 1 / 2, observation = 7 \<rparr>,
          \<lparr> step_type = MID, reward = 5, discount = 1 / 2, observation = 7 \<rparr>] \<and>
   fst (reset (example_env 2 3 MID (Finite 10))) =
     Inr [\<lparr> step_type = FIRST, reward = 0, discount = 1, observation = 7 \<rparr>,
          \<lparr> step_type = FIRST, reward = 0, discount = 1, observation = 7 \<rparr>] \<and>
   int (length [\<lparr> step_type = MID, reward = 5, discount = 1 / 2, observation = 7::nat \<rparr>,
          \<lparr> step_type = MID, reward = 5, discount = 1 / 2, observation = 7 \<rparr>]) =
     num_agents (example_env 2 3 MID (Finite 10))"
proof -
  let ?e = "example_env 2 3 MID (Finite 10)"
  let ?m = "\<lparr> step_type = MID, reward = 5, discount = 1 / 2, observation = 7::nat \<rparr>"
  let ?f = "\<lparr> step_type = FIRST, reward = 0, discount = 1, observation = 7::nat \<rparr>"
  have n: "1 \<le> num_agents ?e"
    by (simp add: example_env_def)
  have s: "fst (step ?e [None :: unit option, None]) = Inr [?m, ?m]"
    by (simp add: step_def Let_def example_env_def numeral_2_eq_2)
  have r: "fst (reset ?e) = Inr [?f, ?f]"
    by (simp add: reset_def step_def Let_def example_env_def numeral_2_eq_2)
  from timesteps_per_agent [OF n, where actions = "[None :: unit option, None]"
      and tss = "[?m, ?m]" and tss' = "[?f, ?f]"] s
  have "int (length [?m, ?m]) = num_agents ?e"
    by blast
  with n s r show ?thesis
    by blast
qed

subsection \<open>\<open>reset\<close> against \<open>step\<close>\<close>

text \<open>
  C4. \<open>reset\<close> is \<open>step\<close> with one \<open>None\<close> per agent on the object with the counter
  set to 0. Hence on a freshly constructed object, and on the object left by a \<open>step\<close>
  that returned a \<open>LAST\<close> timestep, \<open>reset\<close> and that \<open>step\<close> call return the same
  result and leave the same object.
\<close>

theorem reset_is_first_step:
  "reset self = step (self\<lparr> episode_steps := 0 \<rparr>) (replicate (nat (num_agents self)) (None :: 'act option)) \<and>
   (TestEnvironment_init default_observation n ospec aspec = Inr self \<longrightarrow>
      reset self = step self (replicate (nat (num_agents self)) (None :: 'act option))) \<and>
   (fst (step before actions) = Inr tss \<and> (\<exists>ts \<in> set tss. step_type ts = LAST) \<and>
    self = snd (step before actions) \<longrightarrow>
      reset self = step self (replicate (nat (num_agents self)) (None :: 'act option)))"
proof -
  have zero: "reset s = step s (replicate (nat (num_agents s)) (None :: 'act option))"
    if "episode_steps s = 0" for s :: "('o, 'os, 'as) TestEnvironment"
  proof -
    from that have "s\<lparr> episode_steps := 0 \<rparr> = s"
      by simp
    then show ?thesis
      using reset_unfold [of s, where ?'act = 'act] by simp
  qed
  have constructed: "episode_steps self = 0"
    if "TestEnvironment_init default_observation n ospec aspec = Inr self"
    using that by (auto simp: TestEnvironment_init_def Let_def split: sum.splits)
  have after_last: "episode_steps self = 0"
    if r: "fst (step before actions) = Inr tss" and l: "\<exists>ts \<in> set tss. step_type ts = LAST"
      and s: "self = snd (step before actions)"
  proof -
    from r have ar: "int (length actions) = num_agents before"
      using step_raises_iff [of before actions] by auto
    from r l fst_step_right_arity [OF ar] s snd_step_right_arity [OF ar] show ?thesis
      by (auto split: if_splits)
  qed
  show ?thesis
    using reset_unfold [of self, where ?'act = 'act] zero [of self] constructed after_last by blast
qed

text \<open>
  The theorem at a constructed object for one agent, and at the object left by the call
  that ends an episode of length 3.
\<close>

theorem reset_is_first_step_witness:
  "TestEnvironment_init example_builder 1 () () = Inr (example_env 1 0 MID Infinite
      \<lparr> next_timestep := \<lparr> step_type = MID, reward = 0, discount = 1, observation = 7 \<rparr> \<rparr>) \<and>
   reset (example_env 1 0 MID Infinite
      \<lparr> next_timestep := \<lparr> step_type = MID, reward = 0, discount = 1, observation = 7 \<rparr> \<rparr>) =
     step (example_env 1 0 MID Infinite
      \<lparr> next_timestep := \<lparr> step_type = MID, reward = 0, discount = 1, observation = 7 \<rparr> \<rparr>)
       [None :: unit option] \<and>
   fst (step (example_env 1 3 MID (Finite 3)) [None :: unit option]) =
     Inr [\<lparr> step_type = LAST, reward = 5, discount = 1 / 2, observation = 7 \<rparr>] \<and>
   reset (snd (step (example_env 1 3 MID (Finite 3)) [None :: unit option])) =
     step (snd (step (example_env 1 3 MID (Finite 3)) [None :: unit option]))
       [None :: unit option]"
proof -
  let ?c = "example_env 1 0 MID Infinite
      \<lparr> next_timestep := \<lparr> step_type = MID, reward = 0, discount = 1, observation = 7 \<rparr> \<rparr>"
  let ?b = "example_env 1 3 MID (Finite 3)"
  let ?l = "\<lparr> step_type = LAST, reward = 5, discount = 1 / 2, observation = 7::nat \<rparr>"
  have i: "TestEnvironment_init example_builder 1 () () = Inr ?c"
    by (simp add: TestEnvironment_init_def example_builder_def example_env_def)
  have l: "fst (step ?b [None :: unit option]) = Inr [?l]"
    by (simp add: step_def Let_def example_env_def)
  have nc: "nat (num_agents ?c) = Suc 0"
    by (simp add: example_env_def)
  have nb: "nat (num_agents (snd (step ?b [None :: unit option]))) = Suc 0"
    by (simp add: step_def Let_def example_env_def)
  from reset_is_first_step [where self = ?c and default_observation = example_builder
      and n = 1 and ospec = "()" and aspec = "()" and ?'act = unit] i
  have "reset ?c = step ?c (replicate (nat (num_agents ?c)) (None :: unit option))"
    by blast
  moreover
  have ex: "\<exists>ts \<in> set [?l]. step_type ts = LAST"
    by simp
  from reset_is_first_step [where self = "snd (step ?b [None :: unit option])" and before = ?b
      and actions = "[None :: unit option]" and tss = "[?l]" and ?'act = unit] l ex
  have "reset (snd (step ?b [None :: unit option])) =
      step (snd (step ?b [None :: unit option]))
        (replicate (nat (num_agents (snd (step ?b [None :: unit option])))) (None :: unit option))"
    by blast
  ultimately show ?thesis
    using i l unfolding nc nb by simp
qed

subsection \<open>The wrong number of actions\<close>

text \<open>
  C5. \<open>step\<close> raises exactly when the number of actions differs from the agent count.
  The error is a \<open>ValueError\<close> whose message gives the expected and the received count,
  the object is left as it was, and so any later call behaves as if the failing call had
  not been made.
\<close>

theorem step_invalid_arity:
  "(isl (fst (step self actions)) \<longleftrightarrow> int (length actions) \<noteq> num_agents self) \<and>
   (int (length actions) \<noteq> num_agents self \<longrightarrow>
      fst (step self actions) =
        Inl (ValueError (''Expected '' @ format_d (num_agents self) @ '' actions, received ''
               @ format_d (int (length actions)) @ ''.'')) \<and>
      snd (step self actions) = self \<and>
      step (snd (step self actions)) actions' = step self actions')"
  by (simp add: step_raises_iff step_wrong_arity)

text \<open>The theorem for two agents and one action.\<close>

theorem step_invalid_arity_witness:
  "int (length [None :: unit option]) \<noteq> num_agents (example_env 2 3 MID (Finite 10)) \<and>
   fst (step (example_env 2 3 MID (Finite 10)) [None :: unit option]) =
     Inl (ValueError ''Expected 2 actions, received 1.'') \<and>
   snd (step (example_env 2 3 MID (Finite 10)) [None :: unit option]) =
     example_env 2 3 MID (Finite 10) \<and>
   step (snd (step (example_env 2 3 MID (Finite 10)) [None :: unit option]))
        [None :: unit option, None] =
     step (example_env 2 3 MID (Finite 10)) [None :: unit option, None]"
proof -
  let ?e = "example_env 2 3 MID (Finite 10)"
  have n: "num_agents ?e = 2"
    by (simp add: example_env_def)
  have h: "int (length [None :: unit option]) \<noteq> num_agents ?e"
    by (simp add: n)
  have d: "format_d 2 = ''2''" "format_d 1 = ''1''"
    by (simp_all add: format_d_def format_nat.simps digit_char_def)
  from h step_invalid_arity [where self = ?e and actions = "[None :: unit option]"
      and actions' = "[None :: unit option, None]"]
  have "fst (step ?e [None :: unit option]) =
          Inl (ValueError (''Expected '' @ format_d (num_agents ?e) @ '' actions, received ''
                 @ format_d (int (length [None :: unit option])) @ ''.'')) \<and>
        snd (step ?e [None :: unit option]) = ?e \<and>
        step (snd (step ?e [None :: unit option])) [None :: unit option, None] =
          step ?e [None :: unit option, None]"
    by blast
  then show ?thesis
    using h by (simp add: n d)
qed

subsection \<open>The counter stays within the episode length\<close>

lemma step_counter_bounds:
  assumes "episode_length self = Finite L" and "1 \<le> L" and "0 \<le> episode_steps self"
  shows "0 \<le> episode_steps (snd (step self actions)) \<and>
         (int (length actions) = num_agents self \<or> episode_steps self \<le> L \<longrightarrow>
            episode_steps (snd (step self actions)) \<le> L) \<and>
         episode_length (snd (step self actions)) = Finite L"
proof (cases "int (length actions) = num_agents self")
  case True
  show ?thesis
    using assms by (simp add: snd_step_right_arity [OF True])
next
  case False
  show ?thesis
    using assms False by (simp add: step_wrong_arity [OF False])
qed

lemma perform_counter_bounds:
  assumes "episode_length self = Finite L" and "1 \<le> L"
    and "0 \<le> episode_steps self" and "episode_steps self \<le> L"
  shows "episode_length (perform self c) = Finite L \<and>
         0 \<le> episode_steps (perform self c) \<and> episode_steps (perform self c) \<le> L"
proof (cases c)
  case CallReset
  then show ?thesis
    using assms step_counter_bounds [of "self\<lparr> episode_steps := 0 \<rparr>" L
        "replicate (nat (num_agents self)) (None :: unit option)"]
    by (simp add: reset_def)
next
  case (CallStep actions)
  then show ?thesis
    using assms step_counter_bounds [of self L actions] by simp
next
  case (SetNextTimestep ts)
  then show ?thesis
    using assms by simp
qed

lemma run_counter_bounds:
  "episode_length self = Finite L \<Longrightarrow> 1 \<le> L \<Longrightarrow>
   0 \<le> episode_steps self \<Longrightarrow> episode_steps self \<le> L \<Longrightarrow>
   0 \<le> episode_steps (foldl perform self calls) \<and> episode_steps (foldl perform self calls) \<le> L"
proof (induction calls arbitrary: self)
  case Nil
  then show ?case by simp
next
  case (Cons c calls)
  from perform_counter_bounds [OF Cons.prems, of c] Cons.prems(2)
  show ?case
    by (simp add: Cons.IH)
qed

text \<open>
  C10. Let the episode length be an integer \<open>L\<close> of at least 1 and the counter be at
  least 0, as it is from construction on. After a successful \<open>step\<close>, and after
  \<open>reset\<close>, the counter lies between 0 and \<open>L\<close>; and if the counter is at most \<open>L\<close>
  to begin with, it lies between 0 and \<open>L\<close> after every sequence of \<open>reset\<close> calls,
  \<open>step\<close> calls and assignments to \<open>next_timestep\<close>.
\<close>

theorem episode_steps_bounded:
  assumes "episode_length self = Finite L" and "1 \<le> L" and "0 \<le> episode_steps self"
  shows "(int (length actions) = num_agents self \<longrightarrow>
            0 \<le> episode_steps (snd (step self actions)) \<and>
            episode_steps (snd (step self actions)) \<le> L) \<and>
         0 \<le> episode_steps (snd (reset self)) \<and> episode_steps (snd (reset self)) \<le> L \<and>
         (episode_steps self \<le> L \<longrightarrow>
            0 \<le> episode_steps (foldl perform self calls) \<and>
            episode_steps (foldl perform self calls) \<le> L)"
proof -
  have r: "0 \<le> episode_steps (snd (reset self)) \<and> episode_steps (snd (reset self)) \<le> L"
    using assms step_counter_bounds [of "self\<lparr> episode_steps := 0 \<rparr>" L
        "replicate (nat (num_agents self)) (None :: unit option)"]
    by (simp add: reset_def)
  show ?thesis
    using assms step_counter_bounds [of self L actions] run_counter_bounds [of self L calls] r
    by blast
qed

text \<open>The theorem at episode length 3 with the counter at 3.\<close>

theorem episode_steps_bounded_witness:
  "episode_length (example_env 1 3 MID (Finite 3)) = Finite 3 \<and>
   0 \<le> episode_steps (example_env 1 3 MID (Finite 3)) \<and>
   int (length [None :: unit option]) = num_agents (example_env 1 3 MID (Finite 3)) \<and>
   0 \<le> episode_steps (snd (step (example_env 1 3 MID (Finite 3)) [None :: unit option])) \<and>
   episode_steps (snd (step (example_env 1 3 MID (Finite 3)) [None :: unit option])) \<le> 3 \<and>
   episode_steps (foldl perform (example_env 1 3 MID (Finite 3))
     [CallStep [None :: unit option], CallReset, CallStep [None], CallStep [None]]) \<le> 3"
proof -
  let ?e = "example_env 1 3 MID (Finite 3)"
  have h: "episode_length ?e = Finite 3" "(1::int) \<le> 3" "0 \<le> episode_steps ?e"
    and a: "int (length [None :: unit option]) = num_agents ?e"
    and b: "episode_steps ?e \<le> 3"
    by (simp_all add: example_env_def)
  from episode_steps_bounded [OF h, where actions = "[None :: unit option]"
      and calls = "[CallStep [None :: unit option], CallReset, CallStep [None], CallStep [None]]"]
    a b h
  show ?thesis
    by blast
qed

section \<open>Properties of \<open>SC2TestEnv\<close>\<close>

subsection \<open>The bounding box of the minimap camera\<close>

lemma mark_camera_shape:
  "mark_camera getitem cam0 = Inr cam \<Longrightarrow>
   shape cam = shape cam0 \<and> length (cells cam) = length (cells cam0)"
  by (auto simp: mark_camera_def Let_def ndarray_fill_def view_fill_def split: list.splits)

lemma slice_top_left_member:
  assumes "shape a = [H, W]" and "length (cells a) = H * W" and "i < H" and "j < W"
  shows "i * W + j \<in> set (slice_top_left a h w) \<longleftrightarrow> i < h \<and> j < w"
proof -
  have "i * W + j < i * W + W"
    using assms(4) by simp
  also have "\<dots> = Suc i * W"
    by simp
  also have "\<dots> \<le> H * W"
    using assms(3) by (intro mult_le_mono1) simp
  finally have "i * W + j < length (cells a)"
    using assms(2) by simp
  moreover have "(i * W + j) div W = i" and "(i * W + j) mod W = j"
    using assms(4) by simp_all
  ultimately show ?thesis
    using assms(1) by (simp add: slice_top_left_def)
qed

lemma mark_camera_cells:
  assumes "\<forall>a h w. set (getitem a h w) = set (slice_top_left a h w)"
    and "mark_camera getitem cam0 = Inr cam" and "shape cam = [H, W]"
    and "length (cells cam) = H * W" and "i < H" and "j < W"
  shows "at2 cam i j = (if i < H div 2 \<and> j < W div 2 then 1 else 0)"
proof -
  let ?filled = "ndarray_fill 0 cam0"
  from assms(2,3) mark_camera_shape [OF assms(2)] have s0: "shape cam0 = [H, W]"
    by simp
  from assms(2,4) mark_camera_shape [OF assms(2)] have l0: "length (cells cam0) = H * W"
    by simp
  have sf: "shape ?filled = [H, W]" and lf: "length (cells ?filled) = H * W"
    using s0 l0 by (simp_all add: ndarray_fill_def)
  from assms(2) s0 have c: "cam = view_fill (getitem ?filled (H div 2) (W div 2)) 1 ?filled"
    by (simp add: mark_camera_def Let_def ndarray_fill_def)
  have k: "i * W + j < H * W"
  proof -
    have "i * W + j < i * W + W"
      using assms(6) by simp
    also have "\<dots> = Suc i * W"
      by simp
    also have "\<dots> \<le> H * W"
      using assms(5) by (intro mult_le_mono1) simp
    finally show ?thesis .
  qed
  have m: "i * W + j \<in> set (getitem ?filled (H div 2) (W div 2)) \<longleftrightarrow>
      i < H div 2 \<and> j < W div 2"
    using assms(1) slice_top_left_member [OF sf lf assms(5,6)] by simp
  have z: "cells ?filled ! (i * W + j) = 0"
    using k l0 by (simp add: ndarray_fill_def)
  have "cells cam ! (i * W + j) = (if i < H div 2 \<and> j < W div 2 then 1 else 0)"
    unfolding c view_fill_def using k lf m z by simp
  then show ?thesis
    using assms(3) by (simp add: at2_def)
qed

lemma default_observation_camera:
  assumes "SC2TestEnv_default_observation feats specs = Inr obs"
    and "obs ''feature_minimap'' = Some fm" and "fm ''camera'' = Some cam"
  shows "\<exists>cam0. mark_camera (named_array_getitem feats) cam0 = Inr cam"
  using assms
  by (auto simp: SC2TestEnv_default_observation_def mark_minimap_camera_def
      split: list.splits sum.splits option.splits if_splits) blast

text \<open>
  C6. Let \<open>__getitem__\<close> of the camera's class give for \<open>a[:h, :w]\<close> the view of the
  rows below \<open>h\<close> and the columns below \<open>w\<close>. If the observation that
  \<open>_default_observation\<close> returns has a minimap camera layer, and that layer is an array
  of shape \<open>(H, W)\<close>, then its cell in row \<open>i\<close> and column \<open>j\<close> is 1 when \<open>i\<close> is below
  \<open>H // 2\<close> and \<open>j\<close> is below \<open>W // 2\<close>, and 0 otherwise.
\<close>

theorem minimap_camera_marked:
  assumes "\<forall>a h w. set (named_array_getitem feats a h w) = set (slice_top_left a h w)"
    and "SC2TestEnv_default_observation feats specs = Inr obs"
    and "obs ''feature_minimap'' = Some fm" and "fm ''camera'' = Some cam"
    and "shape cam = [H, W]" and "length (cells cam) = H * W"
  shows "\<forall>i < H. \<forall>j < W. at2 cam i j = (if i < H div 2 \<and> j < W div 2 then 1 else 0)"
proof -
  from default_observation_camera [OF assms(2-4)] obtain cam0
    where "mark_camera (named_array_getitem feats) cam0 = Inr cam" ..
  then show ?thesis
    using mark_camera_cells [OF assms(1)] assms(5,6) by blast
qed

text \<open>
  The assumption on \<open>__getitem__\<close> carries the result: a \<open>__getitem__\<close> that applied
  the row slice alone would leave 1 in every column of the upper rows.
\<close>

lemma mark_camera_rows_only:
  "mark_camera (\<lambda>a h w. filter (\<lambda>k. k div 2 < h) [0 ..< length (cells a)])
     \<lparr> shape = [2, 2], cells = [7, 7, 7, 7] \<rparr> =
   Inr \<lparr> shape = [2, 2], cells = [1, 1, 0, 0] \<rparr>"
  by (simp add: mark_camera_def Let_def ndarray_fill_def view_fill_def upt_conv_Cons)

lemma fill_ok:
  "fill img (s0 # s1 # rest) bits =
     Inr (img\<lparr> bits_per_pixel := bits, size_y := s0, size_x := s1,
            data := replicate (nat \<lceil>real (s0 * s1 * bits) / 8\<rceil>) (CHR 0x00) \<rparr>)"
  by (simp add: fill_def)

lemma example_raw:
  "\<exists>raw. mock_response_observation example_features (features_observation_spec example_features) = Inr raw \<and>
     size_y (minimap_renders raw ''camera'') = 4 \<and> size_x (minimap_renders raw ''camera'') = 6"
  by (simp add: mock_response_observation_def fill_feature_screen_def fill_feature_minimap_def
      fill_rgb_screen_def fill_rgb_minimap_def example_features_def fill_ok mock_scalars_def)

lemma example_default_observation:
  "SC2TestEnv_default_observation example_features
     [features_observation_spec example_features] =
   Inr [''feature_minimap'' \<mapsto> [''camera'' \<mapsto> example_camera]]"
proof -
  from example_raw obtain raw where
    r: "mock_response_observation example_features (features_observation_spec example_features) = Inr raw"
    and y: "size_y (minimap_renders raw ''camera'') = 4"
    and x: "size_x (minimap_renders raw ''camera'') = 6"
    by blast
  have t: "transform_obs example_features = example_transform"
    by (simp add: example_features_def)
  have g: "named_array_getitem example_features = slice_top_left"
    by (simp add: example_features_def)
  have m: "mark_camera slice_top_left \<lparr> shape = [4, 6], cells = replicate 24 7 \<rparr> =
      Inr example_camera"
    by (simp add: mark_camera_def Let_def ndarray_fill_def view_fill_def slice_top_left_def
        example_camera_def
        upt_conv_Cons)
  show ?thesis
    by (simp add: SC2TestEnv_default_observation_def r t example_transform_def y x
        mark_minimap_camera_def g m)
qed

text \<open>
  The theorem at the sample features, whose arrays are sliced as the assumption says and
  whose camera layer has 4 rows and 6 columns.
\<close>

theorem minimap_camera_marked_witness:
  "named_array_getitem example_features = slice_top_left \<and>
   SC2TestEnv_default_observation example_features
     [features_observation_spec example_features] =
     Inr [''feature_minimap'' \<mapsto> [''camera'' \<mapsto> example_camera]] \<and>
   shape example_camera = [4, 6] \<and>
   at2 example_camera 0 0 = 1 \<and> at2 example_camera 1 2 = 1 \<and>
   at2 example_camera 1 3 = 0 \<and> at2 example_camera 2 2 = 0 \<and> at2 example_camera 3 5 = 0"
proof -
  have g: "named_array_getitem example_features = slice_top_left"
    by (simp add: example_features_def)
  then have v: "\<forall>a h w. set (named_array_getitem example_features a h w) =
      set (slice_top_left a h w)"
    by simp
  have s: "shape example_camera = [4, 6]" and l: "length (cells example_camera) = 4 * 6"
    by (simp_all add: example_camera_def)
  have "\<forall>i < 4. \<forall>j < 6. at2 example_camera i j = (if i < 4 div 2 \<and> j < 6 div 2 then 1 else 0)"
    by (rule minimap_camera_marked [OF v example_default_observation _ _ s l,
          where fm = "[''camera'' \<mapsto> example_camera]"]) simp_all
  then have "at2 example_camera 0 0 = 1" and "at2 example_camera 1 2 = 1"
    and "at2 example_camera 1 3 = 0" and "at2 example_camera 2 2 = 0"
    and "at2 example_camera 3 5 = 0"
    by simp_all
  with g example_default_observation s show ?thesis
    by blast
qed

subsection \<open>The buffers of the rendered images\<close>

lemma fill_length:
  "fill img sz bits = Inr img' \<Longrightarrow>
   bits_per_pixel img' = bits \<and>
   data img' = replicate (nat \<lceil>real (hd sz * hd (tl sz) * bits) / 8\<rceil>) (CHR 0x00)"
  by (auto simp: fill_def split: list.splits)

lemma rgb_screen_buffer:
  assumes "mock_response_observation feats obs_spec = Inr raw"
    and "obs_spec ''rgb_screen'' = Some [h, w, c]"
  shows "bits_per_pixel (render_map raw) = 24 \<and> size_y (render_map raw) = h \<and>
         size_x (render_map raw) = w \<and>
         data (render_map raw) = replicate (nat \<lceil>real (h * w * 24) / 8\<rceil>) (CHR 0x00)"
  using assms
  by (auto simp: mock_response_observation_def fill_rgb_screen_def fill_rgb_minimap_def
      fill_def split: sum.splits option.splits list.splits)
    (simp add: mult.commute)

lemma rgb_minimap_buffer:
  assumes "mock_response_observation feats obs_spec = Inr raw"
    and "obs_spec ''rgb_screen'' = Some shp" and "obs_spec ''rgb_minimap'' = Some [h, w, c]"
  shows "bits_per_pixel (render_minimap raw) = 24 \<and> size_y (render_minimap raw) = h \<and>
         size_x (render_minimap raw) = w \<and>
         data (render_minimap raw) = replicate (nat \<lceil>real (h * w * 24) / 8\<rceil>) (CHR 0x00)"
  using assms
  by (auto simp: mock_response_observation_def fill_rgb_screen_def fill_rgb_minimap_def
      fill_def split: sum.splits option.splits list.splits)
    (simp add: mult.commute)

text \<open>
  C7 asks for a zero-filled buffer of \<open>ceil(height * width * 24 / 8)\<close> bytes for the
  rendered minimap whenever \<open>rgb_minimap\<close> is declared. The code tests \<open>'rgb_screen'\<close>
  before filling the minimap: for a spec that declares only \<open>rgb_minimap\<close>, of shape
  \<open>(64, 64, 3)\<close>, nothing is filled and the minimap image keeps 0 bits per pixel and no
  bytes where 12288 are due; for a spec that declares only \<open>rgb_screen\<close> the lookup of
  \<open>'rgb_minimap'\<close> raises \<open>KeyError\<close>.
\<close>

theorem rgb_minimap_buffer_not_allocated:
  "mock_response_observation feats [''rgb_minimap'' \<mapsto> [64, 64, 3]] = Inr mock_scalars \<and>
   bits_per_pixel (render_minimap mock_scalars) = 0 \<and>
   data (render_minimap mock_scalars) = [] \<and>
   nat \<lceil>real (64 * 64 * 24) / 8\<rceil> = 12288 \<and>
   mock_response_observation feats [''rgb_screen'' \<mapsto> [64, 64, 3]] =
     Inl (KeyError ''rgb_minimap'')"
proof -
  have a: "mock_response_observation feats [''rgb_minimap'' \<mapsto> [64, 64, 3]] = Inr mock_scalars"
    by (simp add: mock_response_observation_def fill_feature_screen_def
        fill_feature_minimap_def fill_rgb_screen_def fill_rgb_minimap_def)
  have b: "bits_per_pixel (render_minimap mock_scalars) = 0"
    "data (render_minimap mock_scalars) = []"
    by (simp_all add: mock_scalars_def ImageData_default_def)
  have c: "nat \<lceil>real (64 * 64 * 24) / 8\<rceil> = 12288"
    by simp
  have d: "mock_response_observation feats [''rgb_screen'' \<mapsto> [64, 64, 3]] =
      Inl (KeyError ''rgb_minimap'')"
    by (simp add: mock_response_observation_def fill_feature_screen_def
        fill_feature_minimap_def fill_rgb_screen_def fill_rgb_minimap_def fill_def)
  from a b c d show ?thesis
    by blast
qed

subsection \<open>The constructor\<close>

lemma count_agents_nonneg: "0 \<le> count_agents players"
  by (simp add: count_agents_def split: option.splits list.splits)

lemma default_observation_head:
  "SC2TestEnv_default_observation feats (obs_spec # rest) =
   SC2TestEnv_default_observation feats [obs_spec]"
  by (simp add: SC2TestEnv_default_observation_def)

lemma SC2TestEnv_init_guard:
  "truthy (bind_only_use_kwargs args) \<Longrightarrow>
   SC2TestEnv_init args players made =
     Inl (ValueError ''All arguments must be passed as keyword arguments.'')"
  by (simp add: SC2TestEnv_init_def)

lemma SC2TestEnv_init_ok:
  assumes "\<not> truthy (bind_only_use_kwargs args)"
    and "SC2TestEnv_default_observation feats
           (replicate (nat (count_agents players)) (features_observation_spec feats)) = Inr obs"
  shows "SC2TestEnv_init args players (Inr feats) =
     Inr \<lparr> num_agents = count_agents players,
           observation_spec_attr =
             replicate (nat (count_agents players)) (features_observation_spec feats),
           action_spec_attr = replicate (nat (count_agents players)) (features_action_spec feats),
           episode_steps = 0,
           next_timestep = \<lparr> step_type = MID, reward = 0, discount = 1, observation = obs \<rparr>,
           episode_length = Finite 10 \<rparr>"
  using assms by (simp add: SC2TestEnv_init_def TestEnvironment_init_def Let_def)

lemma SC2TestEnv_init_Inr:
  assumes "SC2TestEnv_init args players made = Inr self"
  shows "\<not> truthy (bind_only_use_kwargs args) \<and> num_agents self = count_agents players \<and>
         1 \<le> count_agents players \<and> episode_steps self = 0 \<and>
         step_type (next_timestep self) = MID \<and> episode_length self = Finite 10"
proof -
  from assms have g: "\<not> truthy (bind_only_use_kwargs args)"
    by (auto simp: SC2TestEnv_init_def split: if_splits)
  from assms g obtain feats where m: "made = Inr feats"
    by (cases made) (auto simp: SC2TestEnv_init_def)
  from assms g m obtain obs where
    o: "SC2TestEnv_default_observation feats
          (replicate (nat (count_agents players)) (features_observation_spec feats)) = Inr obs"
    by (auto simp: SC2TestEnv_init_def TestEnvironment_init_def Let_def split: sum.splits)
  have "nat (count_agents players) \<noteq> 0"
  proof
    assume "nat (count_agents players) = 0"
    with o show False
      by (simp add: SC2TestEnv_default_observation_def)
  qed
  then have "1 \<le> count_agents players"
    by simp
  with assms g SC2TestEnv_init_ok [OF g o] m show ?thesis
    by auto
qed

lemma example_fixture_init:
  assumes "\<not> truthy (bind_only_use_kwargs args)" and "1 \<le> count_agents players"
  shows "SC2TestEnv_init args players (Inr example_features) =
         Inr (example_fixture (count_agents players))"
proof -
  from assms(2) obtain m where m: "nat (count_agents players) = Suc m"
    by (cases "nat (count_agents players)") auto
  have "SC2TestEnv_default_observation example_features
          (replicate (nat (count_agents players)) (features_observation_spec example_features)) =
        Inr [''feature_minimap'' \<mapsto> [''camera'' \<mapsto> example_camera]]"
    unfolding m replicate_Suc
    by (subst default_observation_head) (rule example_default_observation)
  from SC2TestEnv_init_ok [OF assms(1) this] show ?thesis
    by (simp add: example_fixture_def example_features_def)
qed

text \<open>
  C8, as the code has it. When the first positional argument is truthy the constructor
  raises \<open>ValueError\<close> before it does anything else. When there is no positional
  argument, and \<open>features.Features\<close> returns an object for which the default observation
  can be built, the constructor returns the environment with that observation as the
  template and episode length 10.
\<close>

theorem only_use_kwargs_guard:
  "(truthy (bind_only_use_kwargs args) \<longrightarrow>
      SC2TestEnv_init args players made =
        Inl (ValueError ''All arguments must be passed as keyword arguments.'')) \<and>
   (SC2TestEnv_default_observation feats
      (replicate (nat (count_agents players)) (features_observation_spec feats)) = Inr obs \<longrightarrow>
      SC2TestEnv_init [] players (Inr feats) =
        Inr \<lparr> num_agents = count_agents players,
              observation_spec_attr =
                replicate (nat (count_agents players)) (features_observation_spec feats),
              action_spec_attr =
                replicate (nat (count_agents players)) (features_action_spec feats),
              episode_steps = 0,
              next_timestep =
                \<lparr> step_type = MID, reward = 0, discount = 1, observation = obs \<rparr>,
              episode_length = Finite 10 \<rparr>)"
proof -
  have "\<not> truthy (bind_only_use_kwargs [])"
    by (simp add: bind_only_use_kwargs_def)
  then show ?thesis
    using SC2TestEnv_init_guard SC2TestEnv_init_ok by blast
qed

text \<open>The theorem for a map name passed positionally, and for a call without arguments.\<close>

theorem only_use_kwargs_guard_witness:
  "truthy (bind_only_use_kwargs [PyStr ''Simple64'']) \<and>
   SC2TestEnv_init [PyStr ''Simple64''] None (Inr example_features) =
     Inl (ValueError ''All arguments must be passed as keyword arguments.'') \<and>
   SC2TestEnv_init [] None (Inr example_features) = Inr (example_fixture 1)"
proof -
  have t: "truthy (bind_only_use_kwargs [PyStr ''Simple64''])"
    by (simp add: bind_only_use_kwargs_def)
  have c: "count_agents None = 1"
    by (simp add: count_agents_def)
  have o: "SC2TestEnv_default_observation example_features
      (replicate (nat (count_agents None)) (features_observation_spec example_features)) =
      Inr [''feature_minimap'' \<mapsto> [''camera'' \<mapsto> example_camera]]"
    unfolding c using example_default_observation by simp
  from only_use_kwargs_guard [where args = "[PyStr ''Simple64'']" and players = None
      and made = "Inr example_features" and feats = example_features
      and obs = "[''feature_minimap'' \<mapsto> [''camera'' \<mapsto> example_camera]]"] t o
  have "SC2TestEnv_init [PyStr ''Simple64''] None (Inr example_features) =
          Inl (ValueError ''All arguments must be passed as keyword arguments.'')"
    and "SC2TestEnv_init [] None (Inr example_features) =
          Inr \<lparr> num_agents = count_agents None,
              observation_spec_attr =
                replicate (nat (count_agents None)) (features_observation_spec example_features),
              action_spec_attr =
                replicate (nat (count_agents None)) (features_action_spec example_features),
              episode_steps = 0,
              next_timestep =
                \<lparr> step_type = MID, reward = 0, discount = 1,
                  observation = [''feature_minimap'' \<mapsto> [''camera'' \<mapsto> example_camera]] \<rparr>,
              episode_length = Finite 10 \<rparr>"
    by blast+
  with t show ?thesis
    by (simp add: c example_fixture_def example_features_def)
qed

text \<open>
  C8 as the specification words it: every positional argument is rejected and every call
  by name succeeds. The positional argument \<open>False\<close> is accepted, and the call by name
  with a roster of one \<open>Bot\<close> raises \<open>IndexError\<close>.
\<close>

theorem only_use_kwargs_guard_counterexample:
  "SC2TestEnv_init [PyBool False] None (Inr example_features) = Inr (example_fixture 1) \<and>
   SC2TestEnv_init [] (Some [Bot]) (Inr example_features) = Inl IndexError"
proof -
  have "\<not> truthy (bind_only_use_kwargs [PyBool False])"
    by (simp add: bind_only_use_kwargs_def)
  moreover have "count_agents None = 1"
    by (simp add: count_agents_def)
  ultimately have "SC2TestEnv_init [PyBool False] None (Inr example_features) =
      Inr (example_fixture 1)"
    using example_fixture_init [of "[PyBool False]" None] by simp
  moreover have "SC2TestEnv_init [] (Some [Bot]) (Inr example_features) = Inl IndexError"
    by (simp add: SC2TestEnv_init_def bind_only_use_kwargs_def count_agents_def
        TestEnvironment_init_def SC2TestEnv_default_observation_def)
  ultimately show ?thesis
    by blast
qed

text \<open>
  C9, as the code has it. The agent count is 1 without a roster and for the empty roster,
  and the number of agents in a roster that is not empty. In every environment the
  constructor returns, this count is \<open>num_agents\<close>: \<open>step\<close> raises exactly for another
  number of actions, and a successful \<open>step\<close> or \<open>reset\<close> returns that many timesteps.
\<close>

theorem agent_count:
  "count_agents None = 1 \<and> count_agents (Some []) = 1 \<and>
   (ps \<noteq> [] \<longrightarrow> count_agents (Some ps) = int (length (filter is_Agent ps))) \<and>
   (SC2TestEnv_init args players made = Inr self \<longrightarrow>
      num_agents self = count_agents players \<and>
      (isl (fst (step self actions)) \<longleftrightarrow> int (length actions) \<noteq> count_agents players) \<and>
      (fst (step self actions) = Inr tss \<longrightarrow> int (length tss) = count_agents players) \<and>
      (fst (reset self) = Inr tss' \<longrightarrow> int (length tss') = count_agents players))"
proof -
  have a: "count_agents None = 1" "count_agents (Some []) = 1"
    by (simp_all add: count_agents_def)
  have b: "count_agents (Some ps) = int (length (filter is_Agent ps))" if "ps \<noteq> []"
    using that by (cases ps) (simp_all add: count_agents_def)
  have c: "num_agents self = count_agents players \<and>
      (isl (fst (step self actions)) \<longleftrightarrow> int (length actions) \<noteq> count_agents players) \<and>
      (fst (step self actions) = Inr tss \<longrightarrow> int (length tss) = count_agents players) \<and>
      (fst (reset self) = Inr tss' \<longrightarrow> int (length tss') = count_agents players)"
    if i: "SC2TestEnv_init args players made = Inr self"
  proof -
    from SC2TestEnv_init_Inr [OF i] have n: "num_agents self = count_agents players"
      and p: "1 \<le> count_agents players"
      by simp_all
    have l: "int (length xs) = num_agents s"
      if "fst (step s acts) = Inr xs" and "0 \<le> num_agents s"
      for s :: "(sc2_observation, string \<rightharpoonup> nat list, 'a) TestEnvironment"
        and acts :: "'e option list" and xs
    proof -
      from that(1) have ar: "int (length acts) = num_agents s"
        using step_raises_iff [of s acts] by auto
      from that fst_step_right_arity [OF ar] show ?thesis
        by auto
    qed
    have "fst (step self actions) = Inr tss \<longrightarrow> int (length tss) = count_agents players"
      using l [of self actions tss] n p by simp
    moreover
    have "fst (reset self) = Inr tss' \<longrightarrow> int (length tss') = count_agents players"
      using l [of "self\<lparr> episode_steps := 0 \<rparr>"
          "replicate (nat (num_agents self)) (None :: unit option)" tss'] n p
      by (simp add: reset_def)
    ultimately show ?thesis
      using n step_raises_iff [of self actions] by simp
  qed
  from a b c show ?thesis
    by blast
qed

text \<open>The theorem for a roster of two agents and a bot.\<close>

theorem agent_count_witness:
  "[Agent, Bot, Agent] \<noteq> [] \<and>
   count_agents (Some [Agent, Bot, Agent]) = 2 \<and>
   SC2TestEnv_init [] (Some [Agent, Bot, Agent]) (Inr example_features) =
     Inr (example_fixture 2) \<and>
   num_agents (example_fixture 2) = 2 \<and>
   isl (fst (step (example_fixture 2) [None :: unit option])) \<and>
   fst (step (example_fixture 2) [None :: unit option, None]) =
     Inr [(next_timestep (example_fixture 2))\<lparr> step_type := FIRST \<rparr>,
          (next_timestep (example_fixture 2))\<lparr> step_type := FIRST \<rparr>] \<and>
   int (length [(next_timestep (example_fixture 2))\<lparr> step_type := FIRST \<rparr>,
          (next_timestep (example_fixture 2))\<lparr> step_type := FIRST \<rparr>]) =
     count_agents (Some [Agent, Bot, Agent])"
proof -
  let ?ps = "[Agent, Bot, Agent]"
  let ?f = "(next_timestep (example_fixture 2))\<lparr> step_type := FIRST \<rparr>"
  have ne: "?ps \<noteq> []"
    by simp
  have g: "\<not> truthy (bind_only_use_kwargs [])"
    by (simp add: bind_only_use_kwargs_def)
  have st: "fst (step (example_fixture 2) [None :: unit option, None]) = Inr [?f, ?f]"
    by (simp add: step_def Let_def example_fixture_def numeral_2_eq_2)
  note t = agent_count [where ps = ?ps and args = "[]" and players = "Some ?ps"
      and made = "Inr example_features" and self = "example_fixture 2"
      and actions = "[None :: unit option]"]
  from t ne have c: "count_agents (Some ?ps) = 2"
    by simp
  then have i: "SC2TestEnv_init [] (Some ?ps) (Inr example_features) = Inr (example_fixture 2)"
    using example_fixture_init [OF g, of "Some ?ps"] by simp
  from t i c have "num_agents (example_fixture 2) = 2"
    and "isl (fst (step (example_fixture 2) [None :: unit option]))"
    by simp_all
  moreover
  from agent_count [where args = "[]" and players = "Some ?ps"
      and made = "Inr example_features" and self = "example_fixture 2"
      and actions = "[None :: unit option, None]" and tss = "[?f, ?f]"] i st
  have "int (length [?f, ?f]) = count_agents (Some ?ps)"
    by blast
  ultimately show ?thesis
    using ne c i st by blast
qed

text \<open>
  C9 as the specification words it makes the count the number of agents in the roster
  supplied. For the empty roster that number is 0 and the environment has one agent.
\<close>

theorem agent_count_counterexample:
  "SC2TestEnv_init [] (Some []) (Inr example_features) = Inr (example_fixture 1) \<and>
   num_agents (example_fixture 1) = 1 \<and>
   int (length (filter is_Agent [])) = 0"
proof -
  have "\<not> truthy (bind_only_use_kwargs [])"
    by (simp add: bind_only_use_kwargs_def)
  moreover have "count_agents (Some []) = 1"
    by (simp add: count_agents_def)
  ultimately have "SC2TestEnv_init [] (Some []) (Inr example_features) = Inr (example_fixture 1)"
    using example_fixture_init [of "[]" "Some []"] by simp
  then show ?thesis
    by (simp add: example_fixture_def)
qed

section \<open>A whole episode\<close>

lemma length_neutral_actions:
  "0 \<le> num_agents self \<Longrightarrow> int (length (neutral_actions self)) = num_agents self"
  by (simp add: neutral_actions_def)

lemma neutral_actions_counter [simp]:
  "neutral_actions (self\<lparr> episode_steps := c \<rparr>) = neutral_actions self"
  by (simp add: neutral_actions_def)

lemma after_steps_Suc_right:
  "after_steps (Suc k) self =
     snd (step (after_steps k self) (neutral_actions (after_steps k self)))"
  by (induction k arbitrary: self) simp_all

lemma after_steps_mid:
  "episode_length self = Finite L \<Longrightarrow> step_type (next_timestep self) = MID \<Longrightarrow>
   0 \<le> num_agents self \<Longrightarrow> 1 \<le> episode_steps self \<Longrightarrow>
   episode_steps self + int k \<le> L \<Longrightarrow>
   after_steps k self = self\<lparr> episode_steps := episode_steps self + int k \<rparr>"
proof (induction k arbitrary: self)
  case 0
  then show ?case by simp
next
  case (Suc k)
  let ?s = "self\<lparr> episode_steps := episode_steps self + 1 \<rparr>"
  have "snd (step self (neutral_actions self)) = ?s"
    using Suc.prems by (simp add: snd_step_right_arity [OF length_neutral_actions])
  moreover have "after_steps k ?s = ?s\<lparr> episode_steps := episode_steps ?s + int k \<rparr>"
    using Suc.prems by (intro Suc.IH) simp_all
  ultimately show ?case
    by (simp add: add.assoc add.commute)
qed

text \<open>
  C2, as the code has it. Let the episode length be an integer \<open>L\<close> of at least 1, the
  agent count be at least 0 and the template have step type \<open>MID\<close>, as it has from
  construction. Count as call 1 the call of \<open>step\<close> that \<open>reset\<close> makes, and as call
  \<open>k + 1\<close> the \<open>k\<close>-th call of \<open>step\<close> with neutral actions after it. Then call 1
  returns \<open>FIRST\<close> timesteps with reward 0 and discount 1, calls 2 to \<open>L\<close> return the
  template with step type \<open>MID\<close>, call \<open>L + 1\<close> returns it with step type \<open>LAST\<close>, and
  call \<open>L + 2\<close> returns \<open>FIRST\<close> again. An environment that \<open>SC2TestEnv\<close> constructs
  meets these conditions with \<open>L = 10\<close>.
\<close>

theorem episode_step_types:
  assumes "episode_length self = Finite L" and "1 \<le> L" and "0 \<le> num_agents self"
    and "step_type (next_timestep self) = MID"
  shows "fst (reset self) =
           Inr (replicate (nat (num_agents self))
                  ((next_timestep self)\<lparr> step_type := FIRST, reward := 0, discount := 1 \<rparr>)) \<and>
         (\<forall>k. 1 \<le> k \<and> int k < L \<longrightarrow>
            fst (step (after_steps (k - 1) (snd (reset self))) (neutral_actions self)) =
              Inr (replicate (nat (num_agents self))
                     ((next_timestep self)\<lparr> step_type := MID \<rparr>))) \<and>
         fst (step (after_steps (nat L - 1) (snd (reset self))) (neutral_actions self)) =
           Inr (replicate (nat (num_agents self)) ((next_timestep self)\<lparr> step_type := LAST \<rparr>)) \<and>
         fst (step (after_steps (nat L) (snd (reset self))) (neutral_actions self)) =
           Inr (replicate (nat (num_agents self))
                  ((next_timestep self)\<lparr> step_type := FIRST, reward := 0, discount := 1 \<rparr>)) \<and>
         (SC2TestEnv_init args players made = Inr env \<longrightarrow>
            episode_length env = Finite 10 \<and> 1 \<le> num_agents env \<and>
            step_type (next_timestep env) = MID)"
proof -
  have tmpl: "(next_timestep self)\<lparr> step_type := MID \<rparr> = next_timestep self"
    using assms(4) by (cases "next_timestep self") simp
  have fixture: "episode_length env = Finite 10 \<and> 1 \<le> num_agents env \<and>
      step_type (next_timestep env) = MID"
    if "SC2TestEnv_init args players made = Inr env"
    using SC2TestEnv_init_Inr [OF that] by simp
  let ?s0 = "self\<lparr> episode_steps := 0 \<rparr>"
  let ?s1 = "self\<lparr> episode_steps := 1 \<rparr>"
  have len: "int (length (neutral_actions s)) = num_agents s"
    if "num_agents s = num_agents self" for s :: "('a, 'b, 'c) TestEnvironment"
    using that assms(3) by (simp add: neutral_actions_def)
  have len0: "int (length (neutral_actions self)) = num_agents ?s0"
    using len [of self] by simp
  have reset_eq: "reset self = step ?s0 (neutral_actions self)"
    by (simp add: reset_def neutral_actions_def)
  have first: "fst (reset self) =
      Inr (replicate (nat (num_agents self))
             ((next_timestep self)\<lparr> step_type := FIRST, reward := 0, discount := 1 \<rparr>))"
    unfolding reset_eq by (simp add: fst_step_right_arity [OF len0])
  have s1: "snd (reset self) = ?s1"
    unfolding reset_eq by (simp add: snd_step_right_arity [OF len0])
  have at: "after_steps k ?s1 = self\<lparr> episode_steps := 1 + int k \<rparr>" if "1 + int k \<le> L" for k
    using after_steps_mid [of ?s1 L k] assms that by simp
  have mid: "fst (step (after_steps (k - 1) (snd (reset self))) (neutral_actions self)) =
      Inr (replicate (nat (num_agents self)) ((next_timestep self)\<lparr> step_type := MID \<rparr>))"
    if "1 \<le> k" and "int k < L" for k
  proof -
    from that have "1 + int (k - 1) \<le> L" and c: "1 + int (k - 1) = int k"
      by simp_all
    then have atk: "after_steps (k - 1) ?s1 = self\<lparr> episode_steps := int k \<rparr>"
      using at [of "k - 1"] by metis
    have lenk: "int (length (neutral_actions self)) = num_agents (self\<lparr> episode_steps := int k \<rparr>)"
      using len [of self] by simp
    show ?thesis
      unfolding s1 atk tmpl using that assms(1) by (simp add: fst_step_right_arity [OF lenk])
  qed
  have atL: "after_steps (nat L - 1) ?s1 = self\<lparr> episode_steps := L \<rparr>"
    using at [of "nat L - 1"] assms(2) by simp
  have lenL: "int (length (neutral_actions self)) = num_agents (self\<lparr> episode_steps := L \<rparr>)"
    using len [of self] by simp
  have last: "fst (step (after_steps (nat L - 1) (snd (reset self))) (neutral_actions self)) =
      Inr (replicate (nat (num_agents self)) ((next_timestep self)\<lparr> step_type := LAST \<rparr>))"
    unfolding s1 atL using assms(1,2) by (simp add: fst_step_right_arity [OF lenL])
  have "nat L = Suc (nat L - 1)"
    using assms(2) by simp
  then have "after_steps (nat L) ?s1 =
      snd (step (after_steps (nat L - 1) ?s1) (neutral_actions (after_steps (nat L - 1) ?s1)))"
    using after_steps_Suc_right [of "nat L - 1" ?s1] by metis
  then have wrapped: "after_steps (nat L) ?s1 = ?s0"
    unfolding atL using assms(1,2) by (simp add: snd_step_right_arity [OF lenL])
  have again: "fst (step (after_steps (nat L) (snd (reset self))) (neutral_actions self)) =
      Inr (replicate (nat (num_agents self))
             ((next_timestep self)\<lparr> step_type := FIRST, reward := 0, discount := 1 \<rparr>))"
    unfolding s1 wrapped by (simp add: fst_step_right_arity [OF len0])
  from first mid last again fixture show ?thesis
    by blast
qed

text \<open>
  The theorem for two agents and episode length 3, starting with the counter at 5, and
  for the sample fixture.
\<close>

theorem episode_step_types_witness:
  "episode_length (example_env 2 5 MID (Finite 3)) = Finite 3 \<and>
   fst (reset (example_env 2 5 MID (Finite 3))) =
     Inr [\<lparr> step_type = FIRST, reward = 0, discount = 1, observation = 7 \<rparr>,
          \<lparr> step_type = FIRST, reward = 0, discount = 1, observation = 7 \<rparr>] \<and>
   fst (step (after_steps 0 (snd (reset (example_env 2 5 MID (Finite 3))))) [None :: unit option, None]) =
     Inr [\<lparr> step_type = MID, reward = 5, discount = 1 / 2, observation = 7 \<rparr>,
          \<lparr> step_type = MID, reward = 5, discount = 1 / 2, observation = 7 \<rparr>] \<and>
   fst (step (after_steps 1 (snd (reset (example_env 2 5 MID (Finite 3))))) [None :: unit option, None]) =
     Inr [\<lparr> step_type = MID, reward = 5, discount = 1 / 2, observation = 7 \<rparr>,
          \<lparr> step_type = MID, reward = 5, discount = 1 / 2, observation = 7 \<rparr>] \<and>
   fst (step (after_steps 2 (snd (reset (example_env 2 5 MID (Finite 3))))) [None :: unit option, None]) =
     Inr [\<lparr> step_type = LAST, reward = 5, discount = 1 / 2, observation = 7 \<rparr>,
          \<lparr> step_type = LAST, reward = 5, discount = 1 / 2, observation = 7 \<rparr>] \<and>
   fst (step (after_steps 3 (snd (reset (example_env 2 5 MID (Finite 3))))) [None :: unit option, None]) =
     Inr [\<lparr> step_type = FIRST, reward = 0, discount = 1, observation = 7 \<rparr>,
          \<lparr> step_type = FIRST, reward = 0, discount = 1, observation = 7 \<rparr>] \<and>
   SC2TestEnv_init [] None (Inr example_features) = Inr (example_fixture 1) \<and>
   episode_length (example_fixture 1) = Finite 10"
proof -
  let ?e = "example_env 2 5 MID (Finite 3)"
  have h: "episode_length ?e = Finite 3" "(1::int) \<le> 3" "0 \<le> num_agents ?e"
    "step_type (next_timestep ?e) = MID"
    by (simp_all add: example_env_def)
  have g: "\<not> truthy (bind_only_use_kwargs [])"
    by (simp add: bind_only_use_kwargs_def)
  have c: "count_agents None = 1"
    by (simp add: count_agents_def)
  have i: "SC2TestEnv_init [] None (Inr example_features) = Inr (example_fixture 1)"
    using example_fixture_init [OF g, of None] c by simp
  note t = episode_step_types [OF h, where args = "[]" and players = None
      and made = "Inr example_features" and env = "example_fixture 1"]
  have n: "neutral_actions ?e = [None :: unit option, None]"
    by (simp add: neutral_actions_def example_env_def numeral_2_eq_2)
  have r: "replicate (nat (num_agents ?e)) x = [x, x]" for x :: "nat TimeStep"
    by (simp add: example_env_def numeral_2_eq_2)
  have m: "next_timestep ?e = \<lparr> step_type = MID, reward = 5, discount = 1 / 2, observation = 7 \<rparr>"
    by (simp add: example_env_def)
  have k: "(1::nat) \<le> 1 \<and> int 1 < 3" "(1::nat) \<le> 2 \<and> int 2 < 3"
    by simp_all
  from t k have
    "fst (step (after_steps (1 - 1) (snd (reset ?e))) (neutral_actions ?e)) =
       Inr (replicate (nat (num_agents ?e)) ((next_timestep ?e)\<lparr> step_type := MID \<rparr>))"
    "fst (step (after_steps (2 - 1) (snd (reset ?e))) (neutral_actions ?e)) =
       Inr (replicate (nat (num_agents ?e)) ((next_timestep ?e)\<lparr> step_type := MID \<rparr>))"
    by blast+
  moreover from t have
    "fst (reset ?e) = Inr (replicate (nat (num_agents ?e))
       ((next_timestep ?e)\<lparr> step_type := FIRST, reward := 0, discount := 1 \<rparr>))"
    "fst (step (after_steps (nat 3 - 1) (snd (reset ?e))) (neutral_actions ?e)) =
       Inr (replicate (nat (num_agents ?e)) ((next_timestep ?e)\<lparr> step_type := LAST \<rparr>))"
    "fst (step (after_steps (nat 3) (snd (reset ?e))) (neutral_actions ?e)) =
       Inr (replicate (nat (num_agents ?e))
         ((next_timestep ?e)\<lparr> step_type := FIRST, reward := 0, discount := 1 \<rparr>))"
    "episode_length (example_fixture 1) = Finite 10"
    using i by blast+
  ultimately show ?thesis
    using h(1) i unfolding n r m by simp
qed

text \<open>
  C2 as the specification words it holds for every episode length. With episode length 0
  the call that \<open>reset\<close> makes returns \<open>FIRST\<close>, although it is call \<open>L + 1\<close>, and the
  next call returns \<open>LAST\<close>. And if the calls are counted from after \<open>reset\<close> has
  returned, the first of them returns \<open>LAST\<close> for episode length 0 and \<open>MID\<close> for
  episode length 3, not \<open>FIRST\<close>.
\<close>

theorem episode_step_types_counterexample:
  "episode_length (example_env 1 0 MID (Finite 0)) = Finite 0 \<and>
   fst (reset (example_env 1 0 MID (Finite 0))) =
     Inr [\<lparr> step_type = FIRST, reward = 0, discount = 1, observation = 7 \<rparr>] \<and>
   fst (step (snd (reset (example_env 1 0 MID (Finite 0)))) [None :: unit option]) =
     Inr [\<lparr> step_type = LAST, reward = 5, discount = 1 / 2, observation = 7 \<rparr>] \<and>
   episode_length (example_env 1 0 MID (Finite 3)) = Finite 3 \<and>
   fst (step (snd (reset (example_env 1 0 MID (Finite 3)))) [None :: unit option]) =
     Inr [\<lparr> step_type = MID, reward = 5, discount = 1 / 2, observation = 7 \<rparr>]"
  by (simp add: reset_def step_def Let_def example_env_def)

end
